theory Spec2Isabelle
  imports Main
begin

section \<open>The Abode integration (homeassistant/components/abode/__init__.py)\<close>

text \<open>
  The module is glue between the vendor library (abodepy) and the host framework. The
  embedding keeps the module's own control flow: which vendor and host calls are made, in
  which order, under which guards, and which exceptions are caught. Data the module holds
  (the shared context, the service registry, the bus listeners, the vendor's callback
  registries) is state; calls whose effect lies outside that data (starting and stopping the
  event stream, logging out, forwarding a platform, firing a bus event, logging) are appended
  to a trace, in program order. Jobs handed to the host's executor or job queue are run at the
  point where the source hands them over.
\<close>

subsection \<open>Constants\<close>

text \<open>\<open>DOMAIN\<close> comes from \<open>.const\<close>; \<open>ATTR_DATE\<close>, \<open>ATTR_TIME\<close>, \<open>ATTR_ENTITY_ID\<close> and
  \<open>EVENT_HOMEASSISTANT_STOP\<close> from \<open>homeassistant.const\<close>. Neither file is among the sources;
  the values are the host framework's.\<close>

definition DOMAIN :: string where "DOMAIN = ''abode''"
definition ATTR_DATE :: string where "ATTR_DATE = ''date''"
definition ATTR_TIME :: string where "ATTR_TIME = ''time''"
definition ATTR_ENTITY_ID :: string where "ATTR_ENTITY_ID = ''entity_id''"
definition EVENT_HOMEASSISTANT_STOP :: string where
  "EVENT_HOMEASSISTANT_STOP = ''homeassistant_stop''"

definition DEFAULT_CACHEDB :: string where "DEFAULT_CACHEDB = ''./abodepy_cache.pickle''"

definition SERVICE_SETTINGS :: string where "SERVICE_SETTINGS = ''change_setting''"
definition SERVICE_CAPTURE_IMAGE :: string where "SERVICE_CAPTURE_IMAGE = ''capture_image''"
definition SERVICE_TRIGGER :: string where "SERVICE_TRIGGER = ''trigger_quick_action''"

definition ATTR_DEVICE_ID :: string where "ATTR_DEVICE_ID = ''device_id''"
definition ATTR_DEVICE_NAME :: string where "ATTR_DEVICE_NAME = ''device_name''"
definition ATTR_DEVICE_TYPE :: string where "ATTR_DEVICE_TYPE = ''device_type''"
definition ATTR_EVENT_CODE :: string where "ATTR_EVENT_CODE = ''event_code''"
definition ATTR_EVENT_NAME :: string where "ATTR_EVENT_NAME = ''event_name''"
definition ATTR_EVENT_TYPE :: string where "ATTR_EVENT_TYPE = ''event_type''"
definition ATTR_EVENT_UTC :: string where "ATTR_EVENT_UTC = ''event_utc''"
definition ATTR_USER_NAME :: string where "ATTR_USER_NAME = ''user_name''"

definition ABODE_PLATFORMS :: "string list" where
  "ABODE_PLATFORMS =
     [''alarm_control_panel'', ''binary_sensor'', ''lock'', ''switch'',
      ''cover'', ''camera'', ''light'', ''sensor'']"

subsection \<open>Exceptions, results, payload values\<close>

text \<open>An exception is modelled by the class an \<open>except\<close> clause matches it against. The three
  classes named by the module are kept apart; \<open>KeyError\<close> and \<open>TypeError\<close> are what Python
  raises on \<open>hass.data[DOMAIN]\<close> without the key, on \<open>x in None\<close> and on calling \<open>None\<close>;
  every other exception is \<open>OtherException\<close>.\<close>

datatype exn =
    AbodeException
  | ConnectTimeout
  | HTTPError
  | KeyError
  | TypeError
  | OtherException string

datatype 'a result = Return 'a | Raise exn

datatype jvalue = JStr string | JInt int | JBool bool | JNull

text \<open>\<open>d.get(key, default)\<close> on a dictionary.\<close>

definition dict_get :: "('k \<rightharpoonup> 'v) \<Rightarrow> 'k \<Rightarrow> 'v \<Rightarrow> 'v" where
  "dict_get d k dflt = (case d k of None \<Rightarrow> dflt | Some v \<Rightarrow> v)"

text \<open>Python truthiness of the polling value: \<open>config_entry.data.get(CONF_POLLING)\<close> is
  \<open>None\<close> when the key is absent, otherwise a boolean.\<close>

definition truthy :: "bool option \<Rightarrow> bool" where
  "truthy p = (p = Some True)"

subsection \<open>Vendor event categories, entities, callbacks\<close>

text \<open>The five \<open>TIMELINE\<close> groups the module names, and any other group of the vendor library.\<close>

datatype timeline_group =
    ALARM_GROUP
  | ALARM_END_GROUP
  | PANEL_FAULT_GROUP
  | PANEL_RESTORE_GROUP
  | AUTOMATION_GROUP
  | OTHER_GROUP string

text \<open>An entity of the device registry, as far as this module uses it: its host entity id, the
  vendor device id, and what its \<open>capture()\<close> and \<open>trigger()\<close> methods do when called
  (\<open>None\<close>: return; \<open>Some ex\<close>: raise \<open>ex\<close>). The methods belong to the platform modules.\<close>

record AbodeDevice =
  entity_id :: string
  device_id :: string
  capture_raises :: "exn option"
  trigger_raises :: "exn option"

record AbodeAutomation =
  automation_entity_id :: string
  automation_id :: string
  event :: "timeline_group option"

text \<open>The callables the module hands to the vendor library: \<open>partial(event_callback, event)\<close>
  and the bound methods \<open>_update_callback\<close> of the two entity classes.\<close>

datatype callback =
    partial_event_callback timeline_group
  | AbodeDevice_update_callback AbodeDevice
  | AbodeAutomation_update_callback AbodeAutomation

subsection \<open>The vendor client and the shared context\<close>

text \<open>The vendor client as the module sees it: the callbacks registered per event group and
  per device, and whether \<open>set_setting\<close> raises for a given setting and value.\<close>

record Abode =
  event_callbacks :: "(timeline_group \<times> callback) list"
  device_callbacks :: "(string \<times> callback) list"
  set_setting_raises :: "string option \<Rightarrow> string option \<Rightarrow> exn option"

definition add_event_callback :: "timeline_group \<Rightarrow> callback \<Rightarrow> Abode \<Rightarrow> Abode" where
  "add_event_callback g cb a = a\<lparr>event_callbacks := event_callbacks a @ [(g, cb)]\<rparr>"

definition add_device_callback :: "string \<Rightarrow> callback \<Rightarrow> Abode \<Rightarrow> Abode" where
  "add_device_callback dev cb a = a\<lparr>device_callbacks := device_callbacks a @ [(dev, cb)]\<rparr>"

definition remove_all_device_callbacks :: "string \<Rightarrow> Abode \<Rightarrow> Abode" where
  "remove_all_device_callbacks dev a =
     a\<lparr>device_callbacks := filter (\<lambda>entry. fst entry \<noteq> dev) (device_callbacks a)\<rparr>"

datatype listener = logout_closure

text \<open>What \<open>hass.bus.async_listen_once\<close> returns: a handle that, when called, removes the
  listener it was returned for.\<close>

datatype remove_handle = remove_listener string listener

text \<open>class AbodeSystem\<close>

record AbodeSystem =
  abode :: Abode
  polling :: "bool option"
  devices :: "AbodeDevice list"
  logout_listener :: "remove_handle option"

definition AbodeSystem_init :: "Abode \<Rightarrow> bool option \<Rightarrow> AbodeSystem" where
  "AbodeSystem_init a p =
     \<lparr>abode = a, polling = p, devices = [], logout_listener = None\<rparr>"

subsection \<open>The host\<close>

datatype effect =
    Abode_events_start
  | Abode_events_stop
  | Abode_logout
  | Abode_set_setting "string option" "string option"
  | Forward_entry_setup string
  | Forward_entry_unload string
  | Device_capture AbodeDevice
  | Device_trigger AbodeDevice
  | Automation_refresh AbodeAutomation
  | Schedule_update_ha_state string
  | Bus_fire timeline_group "(string \<times> jvalue) list"
  | Log_error string exn
  | Log_warning exn
  | Log_info string

datatype service = change_setting_service | capture_image_service | trigger_quick_action_service

datatype schema = CHANGE_SETTING_SCHEMA | CAPTURE_IMAGE_SCHEMA | TRIGGER_SCHEMA

record hass =
  config_dir :: string
  data :: "string \<rightharpoonup> AbodeSystem"
  services :: "(string \<times> string) \<rightharpoonup> (service \<times> schema)"
  bus_listeners :: "(string \<times> listener) list"
  trace :: "effect list"

record config_entry =
  conf_username :: "string option"
  conf_password :: "string option"
  conf_polling :: "bool option"

text \<open>The values \<open>call.data.get\<close> yields for the three keys the handlers read.\<close>

record service_call =
  call_setting :: "string option"
  call_value :: "string option"
  call_entity_ids :: "string list option"

definition emit :: "effect \<Rightarrow> hass \<Rightarrow> hass" where
  "emit e h = h\<lparr>trace := trace h @ [e]\<rparr>"

definition config_path :: "hass \<Rightarrow> string \<Rightarrow> string" where
  "config_path h p = config_dir h @ ''/'' @ p"

definition services_register :: "string \<Rightarrow> string \<Rightarrow> service \<Rightarrow> schema \<Rightarrow> hass \<Rightarrow> hass" where
  "services_register domain name handler sch h =
     h\<lparr>services := (services h)((domain, name) \<mapsto> (handler, sch))\<rparr>"

definition services_remove :: "string \<Rightarrow> string \<Rightarrow> hass \<Rightarrow> hass" where
  "services_remove domain name h = h\<lparr>services := (services h)((domain, name) := None)\<rparr>"

definition async_listen_once :: "string \<Rightarrow> listener \<Rightarrow> hass \<Rightarrow> remove_handle \<times> hass" where
  "async_listen_once event_type l h =
     (remove_listener event_type l, h\<lparr>bus_listeners := bus_listeners h @ [(event_type, l)]\<rparr>)"

fun call_remove_handle :: "remove_handle \<Rightarrow> hass \<Rightarrow> hass" where
  "call_remove_handle (remove_listener event_type l) h =
     h\<lparr>bus_listeners := remove1 (event_type, l) (bus_listeners h)\<rparr>"

subsection \<open>async_setup_entry and its helpers\<close>

text \<open>setup_hass_events, with its closure \<open>logout\<close>.\<close>

definition logout :: "hass \<Rightarrow> unit result \<times> hass" where
  "logout h =
     (case data h DOMAIN of
        None \<Rightarrow> (Raise KeyError, h)
      | Some sys \<Rightarrow>
          let h1 = (if \<not> truthy (polling sys) then emit Abode_events_stop h else h);
              h2 = emit Abode_logout h1
          in (Return (), emit (Log_info ''Logged out of Abode'') h2))"

definition setup_hass_events :: "hass \<Rightarrow> unit result \<times> hass" where
  "setup_hass_events h =
     (case data h DOMAIN of
        None \<Rightarrow> (Raise KeyError, h)
      | Some sys \<Rightarrow>
          let h1 = (if \<not> truthy (polling sys) then emit Abode_events_start h else h);
              (handle, h2) = async_listen_once EVENT_HOMEASSISTANT_STOP logout_closure h1
          in (Return (),
              h2\<lparr>data := (data h2)(DOMAIN \<mapsto> sys\<lparr>logout_listener := Some handle\<rparr>)\<rparr>))"

text \<open>setup_hass_services: the three handlers, then their registration.\<close>

definition set_setting ::
  "Abode \<Rightarrow> string option \<Rightarrow> string option \<Rightarrow> hass \<Rightarrow> unit result \<times> hass" where
  "set_setting a setting val h =
     ((case set_setting_raises a setting val of None \<Rightarrow> Return () | Some ex \<Rightarrow> Raise ex),
      emit (Abode_set_setting setting val) h)"

definition change_setting :: "service_call \<Rightarrow> hass \<Rightarrow> unit result \<times> hass" where
  "change_setting call h =
     (let setting = call_setting call;
          val = call_value call
      in case data h DOMAIN of
           None \<Rightarrow> (Raise KeyError, h)
         | Some sys \<Rightarrow>
             (case set_setting (abode sys) setting val h of
                (Return u, h1) \<Rightarrow> (Return (), h1)
              | (Raise ex, h1) \<Rightarrow>
                  if ex = AbodeException then (Return (), emit (Log_warning ex) h1)
                  else (Raise ex, h1)))"

text \<open>The list comprehension of capture_image and trigger_quick_action:
  \<open>device.entity_id in entity_ids\<close> raises \<open>TypeError\<close> when \<open>entity_ids\<close> is \<open>None\<close>, which
  happens as soon as the registry has a device to test.\<close>

definition target_devices :: "string list option \<Rightarrow> AbodeDevice list \<Rightarrow> AbodeDevice list result" where
  "target_devices entity_ids devs =
     (case entity_ids of
        None \<Rightarrow> (case devs of [] \<Rightarrow> Return [] | _ # _ \<Rightarrow> Raise TypeError)
      | Some ids \<Rightarrow> Return (filter (\<lambda>device. entity_id device \<in> set ids) devs))"

definition device_capture :: "AbodeDevice \<Rightarrow> hass \<Rightarrow> unit result \<times> hass" where
  "device_capture device h =
     ((case capture_raises device of None \<Rightarrow> Return () | Some ex \<Rightarrow> Raise ex),
      emit (Device_capture device) h)"

definition device_trigger :: "AbodeDevice \<Rightarrow> hass \<Rightarrow> unit result \<times> hass" where
  "device_trigger device h =
     ((case trigger_raises device of None \<Rightarrow> Return () | Some ex \<Rightarrow> Raise ex),
      emit (Device_trigger device) h)"

text \<open>\<open>for device in target_devices: action(device)\<close>: the first exception ends the loop.\<close>

fun for_devices ::
  "(AbodeDevice \<Rightarrow> hass \<Rightarrow> unit result \<times> hass) \<Rightarrow> AbodeDevice list \<Rightarrow> hass \<Rightarrow> unit result \<times> hass"
where
  "for_devices action [] h = (Return (), h)"
| "for_devices action (device # rest) h =
     (case action device h of
        (Return u, h1) \<Rightarrow> for_devices action rest h1
      | (Raise ex, h1) \<Rightarrow> (Raise ex, h1))"

definition capture_image :: "service_call \<Rightarrow> hass \<Rightarrow> unit result \<times> hass" where
  "capture_image call h =
     (let entity_ids = call_entity_ids call
      in case data h DOMAIN of
           None \<Rightarrow> (Raise KeyError, h)
         | Some sys \<Rightarrow>
             (case target_devices entity_ids (devices sys) of
                Raise ex \<Rightarrow> (Raise ex, h)
              | Return targets \<Rightarrow> for_devices device_capture targets h))"

definition trigger_quick_action :: "service_call \<Rightarrow> hass \<Rightarrow> unit result \<times> hass" where
  "trigger_quick_action call h =
     (let entity_ids = call_entity_ids call
      in case data h DOMAIN of
           None \<Rightarrow> (Raise KeyError, h)
         | Some sys \<Rightarrow>
             (case target_devices entity_ids (devices sys) of
                Raise ex \<Rightarrow> (Raise ex, h)
              | Return targets \<Rightarrow> for_devices device_trigger targets h))"

definition setup_hass_services :: "hass \<Rightarrow> hass" where
  "setup_hass_services h =
     (let h1 = services_register DOMAIN SERVICE_SETTINGS change_setting_service
                 CHANGE_SETTING_SCHEMA h;
          h2 = services_register DOMAIN SERVICE_CAPTURE_IMAGE capture_image_service
                 CAPTURE_IMAGE_SCHEMA h1
      in services_register DOMAIN SERVICE_TRIGGER trigger_quick_action_service
           TRIGGER_SCHEMA h2)"

text \<open>Invoking a registered handler.\<close>

fun call_service :: "service \<Rightarrow> service_call \<Rightarrow> hass \<Rightarrow> unit result \<times> hass" where
  "call_service change_setting_service call h = change_setting call h"
| "call_service capture_image_service call h = capture_image call h"
| "call_service trigger_quick_action_service call h = trigger_quick_action call h"

text \<open>setup_abode_events, with its closure \<open>event_callback\<close>.\<close>

definition event_callback_data :: "(string \<rightharpoonup> jvalue) \<Rightarrow> (string \<times> jvalue) list" where
  "event_callback_data event_json =
     [(ATTR_DEVICE_ID, dict_get event_json ATTR_DEVICE_ID (JStr '''')),
      (ATTR_DEVICE_NAME, dict_get event_json ATTR_DEVICE_NAME (JStr '''')),
      (ATTR_DEVICE_TYPE, dict_get event_json ATTR_DEVICE_TYPE (JStr '''')),
      (ATTR_EVENT_CODE, dict_get event_json ATTR_EVENT_CODE (JStr '''')),
      (ATTR_EVENT_NAME, dict_get event_json ATTR_EVENT_NAME (JStr '''')),
      (ATTR_EVENT_TYPE, dict_get event_json ATTR_EVENT_TYPE (JStr '''')),
      (ATTR_EVENT_UTC, dict_get event_json ATTR_EVENT_UTC (JStr '''')),
      (ATTR_USER_NAME, dict_get event_json ATTR_USER_NAME (JStr '''')),
      (ATTR_DATE, dict_get event_json ATTR_DATE (JStr '''')),
      (ATTR_TIME, dict_get event_json ATTR_TIME (JStr ''''))]"

definition event_callback :: "timeline_group \<Rightarrow> (string \<rightharpoonup> jvalue) \<Rightarrow> hass \<Rightarrow> hass" where
  "event_callback ev event_json h = emit (Bus_fire ev (event_callback_data event_json)) h"

definition events :: "timeline_group list" where
  "events =
     [ALARM_GROUP, ALARM_END_GROUP, PANEL_FAULT_GROUP, PANEL_RESTORE_GROUP, AUTOMATION_GROUP]"

definition setup_abode_events :: "hass \<Rightarrow> unit result \<times> hass" where
  "setup_abode_events h =
     (case data h DOMAIN of
        None \<Rightarrow> (Raise KeyError, h)
      | Some sys \<Rightarrow>
          (Return (),
           h\<lparr>data := (data h)(DOMAIN \<mapsto>
                sys\<lparr>abode := fold (\<lambda>ev. add_event_callback ev (partial_event_callback ev))
                                 events (abode sys)\<rparr>)\<rparr>))"

text \<open>async_setup_entry. \<open>Abode_new\<close> stands for the vendor constructor \<open>Abode(...)\<close>: it
  returns a client or raises.\<close>

definition async_setup_entry ::
  "(string option \<Rightarrow> string option \<Rightarrow> bool \<Rightarrow> bool \<Rightarrow> bool \<Rightarrow> string \<Rightarrow> Abode result)
     \<Rightarrow> config_entry \<Rightarrow> hass \<Rightarrow> bool result \<times> hass"
where
  "async_setup_entry Abode_new entry h =
     (let username = conf_username entry;
          password = conf_password entry;
          pollflag = conf_polling entry;
          cache = config_path h DEFAULT_CACHEDB
      in case Abode_new username password True True True cache of
           Raise ex \<Rightarrow>
             if ex = AbodeException \<or> ex = ConnectTimeout \<or> ex = HTTPError
             then (Return False, emit (Log_error ''Unable to connect to Abode: %s'' ex) h)
             else (Raise ex, h)
         | Return client \<Rightarrow>
             (let h1 = h\<lparr>data := (data h)(DOMAIN \<mapsto> AbodeSystem_init client pollflag)\<rparr>;
                  h2 = fold (\<lambda>platform. emit (Forward_entry_setup platform)) ABODE_PLATFORMS h1
              in case setup_hass_events h2 of
                   (Raise ex, h3) \<Rightarrow> (Raise ex, h3)
                 | (Return u, h3) \<Rightarrow>
                     (let h4 = setup_hass_services h3
                      in case setup_abode_events h4 of
                           (Raise ex, h5) \<Rightarrow> (Raise ex, h5)
                         | (Return v, h5) \<Rightarrow> (Return True, h5))))"

subsection \<open>async_unload_entry\<close>

definition async_unload_entry :: "config_entry \<Rightarrow> hass \<Rightarrow> bool result \<times> hass" where
  "async_unload_entry entry h =
     (let h1 = services_remove DOMAIN SERVICE_SETTINGS h;
          h2 = services_remove DOMAIN SERVICE_CAPTURE_IMAGE h1;
          h3 = services_remove DOMAIN SERVICE_TRIGGER h2;
          h4 = fold (\<lambda>platform. emit (Forward_entry_unload platform)) ABODE_PLATFORMS h3
      in case data h4 DOMAIN of
           None \<Rightarrow> (Raise KeyError, h4)
         | Some sys \<Rightarrow>
             (let h5 = emit Abode_events_stop h4;
                  h6 = emit Abode_logout h5
              in case logout_listener sys of
                   None \<Rightarrow> (Raise TypeError, h6)
                 | Some handle \<Rightarrow>
                     (let h7 = call_remove_handle handle h6
                      in (Return True, h7\<lparr>data := (data h7)(DOMAIN := None)\<rparr>))))"

subsection \<open>The entity classes\<close>

text \<open>An entity's \<open>_data\<close> refers to the shared context; the methods take that context as an
  argument and return it updated.\<close>

definition AbodeDevice_async_added_to_hass :: "AbodeDevice \<Rightarrow> AbodeSystem \<Rightarrow> AbodeSystem" where
  "AbodeDevice_async_added_to_hass self sys =
     sys\<lparr>abode := add_device_callback (device_id self) (AbodeDevice_update_callback self)
                     (abode sys)\<rparr>"

definition AbodeDevice_async_will_remove_from_hass :: "AbodeDevice \<Rightarrow> AbodeSystem \<Rightarrow> AbodeSystem"
where
  "AbodeDevice_async_will_remove_from_hass self sys =
     sys\<lparr>abode := remove_all_device_callbacks (device_id self) (abode sys)\<rparr>"

definition AbodeDevice_should_poll :: "AbodeDevice \<Rightarrow> AbodeSystem \<Rightarrow> bool option" where
  "AbodeDevice_should_poll self sys = polling sys"

text \<open>\<open>if self._event:\<close> fails for \<open>None\<close>, the constructor's default, and for an empty
  group name; it holds for every other event group (the vendor's group constants are
  non-empty strings).\<close>

definition event_truthy :: "timeline_group option \<Rightarrow> bool" where
  "event_truthy e =
     (case e of
        None \<Rightarrow> False
      | Some g \<Rightarrow> (case g of OTHER_GROUP name \<Rightarrow> name \<noteq> [] | _ \<Rightarrow> True))"

definition AbodeAutomation_async_added_to_hass :: "AbodeAutomation \<Rightarrow> AbodeSystem \<Rightarrow> AbodeSystem"
where
  "AbodeAutomation_async_added_to_hass self sys =
     (case event self of
        None \<Rightarrow> sys
      | Some ev \<Rightarrow>
          if event_truthy (Some ev)
          then sys\<lparr>abode := add_event_callback ev (AbodeAutomation_update_callback self)
                                (abode sys)\<rparr>
          else sys)"

definition AbodeAutomation_should_poll :: "AbodeAutomation \<Rightarrow> AbodeSystem \<Rightarrow> bool option" where
  "AbodeAutomation_should_poll self sys = polling sys"

text \<open>What a registered callable does when the vendor library calls it.\<close>

fun run_callback :: "callback \<Rightarrow> (string \<rightharpoonup> jvalue) \<Rightarrow> hass \<Rightarrow> hass" where
  "run_callback (partial_event_callback ev) event_json h = event_callback ev event_json h"
| "run_callback (AbodeDevice_update_callback self) event_json h =
     emit (Schedule_update_ha_state (entity_id self)) h"
| "run_callback (AbodeAutomation_update_callback self) event_json h =
     emit (Schedule_update_ha_state (automation_entity_id self))
       (emit (Automation_refresh self) h)"

text \<open>The vendor library delivering an event of group \<open>g\<close>: it calls, in order of registration,
  the callbacks registered for \<open>g\<close>.\<close>

definition deliver_event :: "timeline_group \<Rightarrow> (string \<rightharpoonup> jvalue) \<Rightarrow> hass \<Rightarrow> hass" where
  "deliver_event g event_json h =
     (case data h DOMAIN of
        None \<Rightarrow> h
      | Some sys \<Rightarrow>
          fold (\<lambda>entry. run_callback (snd entry) event_json)
            (filter (\<lambda>entry. fst entry = g) (event_callbacks (abode sys))) h)"

subsection \<open>Concrete inputs\<close>

text \<open>A vendor client with no callbacks whose \<open>set_setting\<close> always succeeds, and one whose
  \<open>set_setting\<close> always raises the vendor exception.\<close>

definition quiet_client :: Abode where
  "quiet_client =
     \<lparr>event_callbacks = [], device_callbacks = [],
      set_setting_raises = (\<lambda>setting val. None)\<rparr>"

definition failing_client :: Abode where
  "failing_client =
     \<lparr>event_callbacks = [], device_callbacks = [],
      set_setting_raises = (\<lambda>setting val. Some AbodeException)\<rparr>"

definition poll_entry :: config_entry where
  "poll_entry =
     \<lparr>conf_username = Some ''user'', conf_password = Some ''secret'',
      conf_polling = Some True\<rparr>"

definition push_entry :: config_entry where
  "push_entry =
     \<lparr>conf_username = Some ''user'', conf_password = Some ''secret'',
      conf_polling = Some False\<rparr>"

text \<open>Two cameras and a lock: \<open>front_camera\<close> raises the vendor exception when asked to capture
  or trigger, the other two entities do as asked.\<close>

definition front_camera :: AbodeDevice where
  "front_camera =
     \<lparr>entity_id = ''camera.front'', device_id = ''ZB:0001'',
      capture_raises = Some AbodeException, trigger_raises = Some AbodeException\<rparr>"

definition back_camera :: AbodeDevice where
  "back_camera =
     \<lparr>entity_id = ''camera.back'', device_id = ''ZB:0002'',
      capture_raises = None, trigger_raises = None\<rparr>"

definition hall_lock :: AbodeDevice where
  "hall_lock =
     \<lparr>entity_id = ''lock.hall'', device_id = ''ZB:0003'',
      capture_raises = None, trigger_raises = None\<rparr>"

definition away_automation :: AbodeAutomation where
  "away_automation =
     \<lparr>automation_entity_id = ''switch.away'', automation_id = ''47'', event = None\<rparr>"

text \<open>A host with nothing set up, and a host holding one shared context as
  \<open>async_setup_entry\<close> leaves it (listener attached, handle stored).\<close>

definition fresh_hass :: hass where
  "fresh_hass =
     \<lparr>config_dir = ''/config'', data = Map.empty, services = Map.empty,
      bus_listeners = [], trace = []\<rparr>"

definition context_of :: "Abode \<Rightarrow> bool option \<Rightarrow> AbodeDevice list \<Rightarrow> AbodeSystem" where
  "context_of client p devs =
     \<lparr>abode = client, polling = p, devices = devs,
      logout_listener = Some (remove_listener EVENT_HOMEASSISTANT_STOP logout_closure)\<rparr>"

definition hass_with :: "AbodeSystem \<Rightarrow> hass" where
  "hass_with sys =
     \<lparr>config_dir = ''/config'', data = [DOMAIN \<mapsto> sys], services = Map.empty,
      bus_listeners = [(EVENT_HOMEASSISTANT_STOP, logout_closure)], trace = []\<rparr>"

section \<open>Properties\<close>

subsection \<open>What the loops and the helpers compute\<close>

lemma fold_emit:
  "fold (\<lambda>p. emit (f p)) ps h = h\<lparr>trace := trace h @ map f ps\<rparr>"
  by (induction ps arbitrary: h) (simp_all add: emit_def)

lemma fold_add_event_callback:
  "fold (\<lambda>ev. add_event_callback ev (partial_event_callback ev)) evs a =
     a\<lparr>event_callbacks := event_callbacks a @ map (\<lambda>ev. (ev, partial_event_callback ev)) evs\<rparr>"
  by (induction evs arbitrary: a) (simp_all add: add_event_callback_def)

lemma call_remove_handle_fields [simp]:
  "services (call_remove_handle rh h) = services h"
  "data (call_remove_handle rh h) = data h"
  "trace (call_remove_handle rh h) = trace h"
  by (cases rh; simp)+

lemma count_list_remove1_snoc:
  "count_list (remove1 x (xs @ [x])) y = count_list xs y"
  by (induction xs) auto

lemma setup_hass_events_Some:
  "data h DOMAIN = Some sys \<Longrightarrow>
   setup_hass_events h =
     (Return (),
      h\<lparr>data := (data h)(DOMAIN \<mapsto>
             sys\<lparr>logout_listener := Some (remove_listener EVENT_HOMEASSISTANT_STOP logout_closure)\<rparr>),
        bus_listeners := bus_listeners h @ [(EVENT_HOMEASSISTANT_STOP, logout_closure)],
        trace := trace h @ (if truthy (polling sys) then [] else [Abode_events_start])\<rparr>)"
  by (simp add: setup_hass_events_def async_listen_once_def emit_def Let_def)

lemma setup_abode_events_Some:
  "data h DOMAIN = Some sys \<Longrightarrow>
   setup_abode_events h =
     (Return (),
      h\<lparr>data := (data h)(DOMAIN \<mapsto>
             sys\<lparr>abode := (abode sys)\<lparr>event_callbacks :=
                 event_callbacks (abode sys) @ map (\<lambda>ev. (ev, partial_event_callback ev)) events\<rparr>\<rparr>)\<rparr>)"
  by (simp add: setup_abode_events_def fold_add_event_callback)

text \<open>A setup whose vendor constructor returns a client: the whole resulting host state.\<close>

lemma async_setup_entry_success:
  assumes "Abode_new (conf_username entry) (conf_password entry) True True True
             (config_path h DEFAULT_CACHEDB) = Return client"
  shows "async_setup_entry Abode_new entry h =
     (Return True,
      h\<lparr>data := (data h)(DOMAIN \<mapsto>
             \<lparr>abode = client\<lparr>event_callbacks :=
                 event_callbacks client @ map (\<lambda>ev. (ev, partial_event_callback ev)) events\<rparr>,
              polling = conf_polling entry,
              devices = [],
              logout_listener = Some (remove_listener EVENT_HOMEASSISTANT_STOP logout_closure)\<rparr>),
        services := (services h)
          ((DOMAIN, SERVICE_SETTINGS) \<mapsto> (change_setting_service, CHANGE_SETTING_SCHEMA),
           (DOMAIN, SERVICE_CAPTURE_IMAGE) \<mapsto> (capture_image_service, CAPTURE_IMAGE_SCHEMA),
           (DOMAIN, SERVICE_TRIGGER) \<mapsto> (trigger_quick_action_service, TRIGGER_SCHEMA)),
        bus_listeners := bus_listeners h @ [(EVENT_HOMEASSISTANT_STOP, logout_closure)],
        trace := trace h @ map Forward_entry_setup ABODE_PLATFORMS
                   @ (if truthy (conf_polling entry) then [] else [Abode_events_start])\<rparr>)"
  using assms
  by (simp add: async_setup_entry_def Let_def fold_emit setup_hass_events_Some
      setup_abode_events_Some setup_hass_services_def services_register_def
      AbodeSystem_init_def)

text \<open>An unload on a host that holds a context with a stored handle.\<close>

lemma async_unload_entry_Some:
  assumes "data h DOMAIN = Some sys" and "logout_listener sys = Some (remove_listener et l)"
  shows "async_unload_entry entry h =
     (Return True,
      h\<lparr>data := (data h)(DOMAIN := None),
        services := (services h)
          ((DOMAIN, SERVICE_SETTINGS) := None,
           (DOMAIN, SERVICE_CAPTURE_IMAGE) := None,
           (DOMAIN, SERVICE_TRIGGER) := None),
        bus_listeners := remove1 (et, l) (bus_listeners h),
        trace := trace h @ map Forward_entry_unload ABODE_PLATFORMS
                   @ [Abode_events_stop, Abode_logout]\<rparr>)"
  using assms
  by (simp add: async_unload_entry_def Let_def fold_emit services_remove_def emit_def)

text \<open>The device loop, for an action that makes its call and then returns or raises as the
  device says.\<close>

lemma for_devices_all_return:
  assumes act: "\<And>d w. action d w =
             ((case raises d of None \<Rightarrow> Return () | Some ex \<Rightarrow> Raise ex), emit (eff d) w)"
    and ok: "\<forall>d \<in> set ds. raises d = None"
  shows "for_devices action ds h = (Return (), h\<lparr>trace := trace h @ map eff ds\<rparr>)"
  using ok by (induction ds arbitrary: h) (simp_all add: act emit_def)

lemma for_devices_first_raise:
  assumes act: "\<And>d w. action d w =
             ((case raises d of None \<Rightarrow> Return () | Some ex \<Rightarrow> Raise ex), emit (eff d) w)"
    and ok: "\<forall>d \<in> set pre. raises d = None"
    and bad: "raises dev = Some ex"
  shows "for_devices action (pre @ dev # rest) h =
           (Raise ex, h\<lparr>trace := trace h @ map eff (pre @ [dev])\<rparr>)"
  using ok by (induction pre arbitrary: h) (simp_all add: act bad emit_def)

lemma for_devices_trace_prefix:
  assumes act: "\<And>d w. action d w =
             ((case raises d of None \<Rightarrow> Return () | Some ex \<Rightarrow> Raise ex), emit (eff d) w)"
  shows "\<exists>n. snd (for_devices action ds h) = h\<lparr>trace := trace h @ map eff (take n ds)\<rparr>"
proof (induction ds arbitrary: h)
  case Nil
  show ?case by simp
next
  case (Cons d ds)
  show ?case
  proof (cases "raises d")
    case None
    from Cons.IH [of "emit (eff d) h"] obtain n where
      "snd (for_devices action ds (emit (eff d) h)) =
         (emit (eff d) h)\<lparr>trace := trace (emit (eff d) h) @ map eff (take n ds)\<rparr>" ..
    with None have "snd (for_devices action (d # ds) h) =
         h\<lparr>trace := trace h @ map eff (take (Suc n) (d # ds))\<rparr>"
      by (simp add: act emit_def)
    then show ?thesis ..
  next
    case (Some ex)
    then have "snd (for_devices action (d # ds) h) =
         h\<lparr>trace := trace h @ map eff (take (Suc 0) (d # ds))\<rparr>"
      by (simp add: act emit_def)
    then show ?thesis ..
  qed
qed

subsection \<open>Set-up\<close>

text \<open>
  C3. When the vendor constructor raises during \<open>async_setup_entry\<close>, the exception is caught
  exactly when it is a vendor exception, a connect timeout or an HTTP error, and set-up then
  returns \<open>False\<close>; any other exception leaves \<open>async_setup_entry\<close> as it was raised.
\<close>

theorem C3_setup_catches_three_kinds:
  assumes "Abode_new (conf_username entry) (conf_password entry) True True True
             (config_path h DEFAULT_CACHEDB) = Raise ex"
  shows "fst (async_setup_entry Abode_new entry h) =
           (if ex = AbodeException \<or> ex = ConnectTimeout \<or> ex = HTTPError
            then Return False else Raise ex)"
  using assms by (simp add: async_setup_entry_def Let_def)

theorem C3_setup_catches_three_kinds_witness:
  "fst (async_setup_entry (\<lambda>username password a b c cache. Raise ConnectTimeout)
          push_entry fresh_hass) = Return False
   \<and> fst (async_setup_entry (\<lambda>username password a b c cache. Raise KeyError)
          push_entry fresh_hass) = Raise KeyError"
  using C3_setup_catches_three_kinds
          [of "\<lambda>username password a b c cache. Raise ConnectTimeout" push_entry fresh_hass
              ConnectTimeout]
        C3_setup_catches_three_kinds
          [of "\<lambda>username password a b c cache. Raise KeyError" push_entry fresh_hass KeyError]
  by simp

text \<open>
  C9. A set-up that returns \<open>False\<close> has changed nothing on the host: the vendor constructor
  raised, and the resulting state is the initial one with one error line logged. So no
  context is stored, no platform is forwarded, no service, listener or event callback is
  registered and no vendor call is made.
\<close>

theorem C9_failed_setup_leaves_host_unchanged:
  assumes "fst (async_setup_entry Abode_new entry h) = Return False"
  shows "\<exists>ex. Abode_new (conf_username entry) (conf_password entry) True True True
               (config_path h DEFAULT_CACHEDB) = Raise ex
            \<and> snd (async_setup_entry Abode_new entry h) =
                h\<lparr>trace := trace h @ [Log_error ''Unable to connect to Abode: %s'' ex]\<rparr>"
proof (cases "Abode_new (conf_username entry) (conf_password entry) True True True
               (config_path h DEFAULT_CACHEDB)")
  case (Return client)
  then have "fst (async_setup_entry Abode_new entry h) = Return True"
    by (simp add: async_setup_entry_success [of Abode_new entry h client])
  with assms show ?thesis by simp
next
  case (Raise ex)
  with assms show ?thesis
    by (auto simp add: async_setup_entry_def Let_def emit_def split: if_splits)
qed

theorem C9_failed_setup_leaves_host_unchanged_witness:
  "snd (async_setup_entry (\<lambda>username password a b c cache. Raise HTTPError)
          push_entry fresh_hass) =
     fresh_hass\<lparr>trace := [Log_error ''Unable to connect to Abode: %s'' HTTPError]\<rparr>"
proof -
  have "fst (async_setup_entry (\<lambda>username password a b c cache. Raise HTTPError)
          push_entry fresh_hass) = Return False"
    by (simp add: async_setup_entry_def Let_def)
  from C9_failed_setup_leaves_host_unchanged [OF this]
  show ?thesis by (simp add: fresh_hass_def)
qed

text \<open>
  C10. A set-up that gets its client stores the entry's polling value in the shared context and
  calls \<open>events.start\<close> exactly when that value is not true (\<open>False\<close>, or \<open>None\<close> for an entry
  without the key): the calls of the set-up are the eight platform forwards, followed by
  \<open>events.start\<close> in push mode and by nothing in polling mode. \<open>should_poll\<close> of a device
  entity and of an automation entity returns the polling value of the context the entity
  refers to, as it is.
\<close>

theorem C10_polling_flag_honoured:
  assumes "Abode_new (conf_username entry) (conf_password entry) True True True
             (config_path h DEFAULT_CACHEDB) = Return client"
  shows "\<exists>sys h'. async_setup_entry Abode_new entry h = (Return True, h')
           \<and> data h' DOMAIN = Some sys
           \<and> polling sys = conf_polling entry
           \<and> trace h' = trace h @ map Forward_entry_setup ABODE_PLATFORMS
                @ (if polling sys = Some True then [] else [Abode_events_start])
           \<and> (Abode_events_start \<in> set (drop (length (trace h)) (trace h'))
                \<longleftrightarrow> polling sys \<noteq> Some True)
           \<and> (\<forall>b. polling sys = Some b \<longrightarrow>
                 (Abode_events_start \<in> set (drop (length (trace h)) (trace h')) \<longleftrightarrow> b = False))
           \<and> (\<forall>device automation ctx.
                 AbodeDevice_should_poll device ctx = polling ctx
                 \<and> AbodeAutomation_should_poll automation ctx = polling ctx)"
proof -
  have no_start: "Abode_events_start \<notin> set (map Forward_entry_setup ABODE_PLATFORMS)"
    by auto
  show ?thesis
    unfolding async_setup_entry_success [of Abode_new entry h client, OF assms]
    using no_start
    by (auto simp add: truthy_def AbodeDevice_should_poll_def AbodeAutomation_should_poll_def)
qed

theorem C10_polling_flag_honoured_witness:
  "trace (snd (async_setup_entry (\<lambda>username password a b c cache. Return quiet_client)
                 push_entry fresh_hass))
     = map Forward_entry_setup ABODE_PLATFORMS @ [Abode_events_start]
   \<and> AbodeDevice_should_poll back_camera (context_of quiet_client (Some False) [back_camera])
       = Some False"
proof -
  have "(\<lambda>username password a b c cache. Return quiet_client)
          (conf_username push_entry) (conf_password push_entry) True True True
          (config_path fresh_hass DEFAULT_CACHEDB) = Return quiet_client"
    by simp
  from C10_polling_flag_honoured
         [of "\<lambda>username password a b c cache. Return quiet_client" push_entry fresh_hass
             quiet_client, OF this]
  show ?thesis
    by (auto simp add: push_entry_def fresh_hass_def context_of_def)
qed

subsection \<open>Set-up followed by unload\<close>

text \<open>
  C8. The shared context lives under the one key \<open>DOMAIN\<close> of the host's data registry, so a
  host holds at most one; a successful set-up writes that entry and no other. It appends one
  relay callback per event category to the client's callbacks (the five categories are
  distinct), puts the three handlers under their three service names and attaches one shutdown
  listener. The unload that follows returns \<open>True\<close> and leaves none of the three services
  registered, the data registry without the \<open>DOMAIN\<close> entry (the client and the callbacks it
  holds go with it) and the bus with the listeners it had before the set-up. The three services
  are removed by any unload, whatever else it finds.
\<close>

theorem C8_setup_registers_once_unload_deregisters:
  assumes "Abode_new (conf_username entry) (conf_password entry) True True True
             (config_path h DEFAULT_CACHEDB) = Return client"
  shows "\<exists>sys h1 h2.
           async_setup_entry Abode_new entry h = (Return True, h1)
           \<and> data h1 = (data h)(DOMAIN \<mapsto> sys)
           \<and> event_callbacks (abode sys) =
                event_callbacks client @ map (\<lambda>ev. (ev, partial_event_callback ev)) events
           \<and> distinct events \<and> length events = 5
           \<and> services h1 = (services h)
                ((DOMAIN, SERVICE_SETTINGS) \<mapsto> (change_setting_service, CHANGE_SETTING_SCHEMA),
                 (DOMAIN, SERVICE_CAPTURE_IMAGE) \<mapsto> (capture_image_service, CAPTURE_IMAGE_SCHEMA),
                 (DOMAIN, SERVICE_TRIGGER) \<mapsto> (trigger_quick_action_service, TRIGGER_SCHEMA))
           \<and> distinct [SERVICE_SETTINGS, SERVICE_CAPTURE_IMAGE, SERVICE_TRIGGER]
           \<and> bus_listeners h1 = bus_listeners h @ [(EVENT_HOMEASSISTANT_STOP, logout_closure)]
           \<and> logout_listener sys = Some (remove_listener EVENT_HOMEASSISTANT_STOP logout_closure)
           \<and> async_unload_entry entry h1 = (Return True, h2)
           \<and> services h2 (DOMAIN, SERVICE_SETTINGS) = None
           \<and> services h2 (DOMAIN, SERVICE_CAPTURE_IMAGE) = None
           \<and> services h2 (DOMAIN, SERVICE_TRIGGER) = None
           \<and> data h2 = (data h)(DOMAIN := None)
           \<and> bus_listeners h2 =
                remove1 (EVENT_HOMEASSISTANT_STOP, logout_closure) (bus_listeners h1)
           \<and> (\<forall>l. count_list (bus_listeners h2) l = count_list (bus_listeners h) l)
           \<and> ((EVENT_HOMEASSISTANT_STOP, logout_closure) \<notin> set (bus_listeners h)
                \<longrightarrow> bus_listeners h2 = bus_listeners h)
           \<and> (\<forall>entry' h'. services (snd (async_unload_entry entry' h')) =
                 (services h')((DOMAIN, SERVICE_SETTINGS) := None,
                    (DOMAIN, SERVICE_CAPTURE_IMAGE) := None,
                    (DOMAIN, SERVICE_TRIGGER) := None))"
proof -
  let ?sys = "\<lparr>abode = client\<lparr>event_callbacks :=
                 event_callbacks client @ map (\<lambda>ev. (ev, partial_event_callback ev)) events\<rparr>,
              polling = conf_polling entry,
              devices = [],
              logout_listener = Some (remove_listener EVENT_HOMEASSISTANT_STOP logout_closure)\<rparr>"
  let ?h1 = "snd (async_setup_entry Abode_new entry h)"
  let ?h2 = "snd (async_unload_entry entry ?h1)"
  note su = async_setup_entry_success [of Abode_new entry h client, OF assms]
  have s1: "async_setup_entry Abode_new entry h = (Return True, ?h1)"
    by (simp add: su)
  have d1: "data ?h1 = (data h)(DOMAIN \<mapsto> ?sys)"
    by (simp add: su)
  have e1: "event_callbacks (abode ?sys) =
              event_callbacks client @ map (\<lambda>ev. (ev, partial_event_callback ev)) events"
    by simp
  have ev: "distinct events \<and> length events = 5"
    by (simp add: events_def)
  have sv1: "services ?h1 = (services h)
                ((DOMAIN, SERVICE_SETTINGS) \<mapsto> (change_setting_service, CHANGE_SETTING_SCHEMA),
                 (DOMAIN, SERVICE_CAPTURE_IMAGE) \<mapsto> (capture_image_service, CAPTURE_IMAGE_SCHEMA),
                 (DOMAIN, SERVICE_TRIGGER) \<mapsto> (trigger_quick_action_service, TRIGGER_SCHEMA))"
    by (simp add: su)
  have names: "distinct [SERVICE_SETTINGS, SERVICE_CAPTURE_IMAGE, SERVICE_TRIGGER]"
    by (simp add: SERVICE_SETTINGS_def SERVICE_CAPTURE_IMAGE_def SERVICE_TRIGGER_def)
  have b1: "bus_listeners ?h1 = bus_listeners h @ [(EVENT_HOMEASSISTANT_STOP, logout_closure)]"
    by (simp add: su)
  have l1: "logout_listener ?sys = Some (remove_listener EVENT_HOMEASSISTANT_STOP logout_closure)"
    by simp
  have dsys: "data ?h1 DOMAIN = Some ?sys"
    by (simp add: d1)
  note un = async_unload_entry_Some [of ?h1 ?sys EVENT_HOMEASSISTANT_STOP logout_closure entry,
              OF dsys l1]
  have u2: "async_unload_entry entry ?h1 = (Return True, ?h2)"
    by (simp add: un)
  have sv2: "services ?h2 (DOMAIN, SERVICE_SETTINGS) = None
           \<and> services ?h2 (DOMAIN, SERVICE_CAPTURE_IMAGE) = None
           \<and> services ?h2 (DOMAIN, SERVICE_TRIGGER) = None"
    by (simp add: un)
  have d2: "data ?h2 = (data h)(DOMAIN := None)"
    by (simp add: un d1)
  have b2: "bus_listeners ?h2 =
              remove1 (EVENT_HOMEASSISTANT_STOP, logout_closure) (bus_listeners ?h1)"
    by (simp add: un)
  have c2: "\<forall>l. count_list (bus_listeners ?h2) l = count_list (bus_listeners h) l"
    unfolding b2 b1 by (simp add: count_list_remove1_snoc)
  have f2: "(EVENT_HOMEASSISTANT_STOP, logout_closure) \<notin> set (bus_listeners h)
                \<longrightarrow> bus_listeners ?h2 = bus_listeners h"
    unfolding b2 b1 by (simp add: remove1_append)
  have any: "\<forall>entry' h'. services (snd (async_unload_entry entry' h')) =
                 (services h')((DOMAIN, SERVICE_SETTINGS) := None,
                    (DOMAIN, SERVICE_CAPTURE_IMAGE) := None,
                    (DOMAIN, SERVICE_TRIGGER) := None)"
    by (simp add: async_unload_entry_def Let_def fold_emit services_remove_def emit_def
        split: option.splits)
  from s1 d1 e1 ev sv1 names b1 l1 u2 sv2 d2 b2 c2 f2 any
  show ?thesis by blast
qed

theorem C8_setup_registers_once_unload_deregisters_witness:
  "fst (async_unload_entry push_entry
          (snd (async_setup_entry (\<lambda>username password a b c cache. Return quiet_client)
                  push_entry fresh_hass))) = Return True
   \<and> data (snd (async_unload_entry push_entry
          (snd (async_setup_entry (\<lambda>username password a b c cache. Return quiet_client)
                  push_entry fresh_hass)))) = Map.empty
   \<and> bus_listeners (snd (async_unload_entry push_entry
          (snd (async_setup_entry (\<lambda>username password a b c cache. Return quiet_client)
                  push_entry fresh_hass)))) = []
   \<and> services (snd (async_unload_entry push_entry
          (snd (async_setup_entry (\<lambda>username password a b c cache. Return quiet_client)
                  push_entry fresh_hass)))) (DOMAIN, SERVICE_CAPTURE_IMAGE) = None
   \<and> services (snd (async_setup_entry (\<lambda>username password a b c cache. Return quiet_client)
          push_entry fresh_hass)) (DOMAIN, SERVICE_CAPTURE_IMAGE)
       = Some (capture_image_service, CAPTURE_IMAGE_SCHEMA)"
proof -
  let ?new = "\<lambda>(username :: string option) (password :: string option) (a :: bool) (b :: bool)
                 (c :: bool) (cache :: string). Return quiet_client"
  have ok: "?new (conf_username push_entry) (conf_password push_entry) True True True
          (config_path fresh_hass DEFAULT_CACHEDB) = Return quiet_client"
    by simp
  from C8_setup_registers_once_unload_deregisters [of ?new push_entry fresh_hass quiet_client,
         OF ok]
  obtain sys h1 h2 where
    s1: "async_setup_entry ?new push_entry fresh_hass = (Return True, h1)" and
    d1: "data h1 = (data fresh_hass)(DOMAIN \<mapsto> sys)" and
    sv1: "services h1 = (services fresh_hass)
                ((DOMAIN, SERVICE_SETTINGS) \<mapsto> (change_setting_service, CHANGE_SETTING_SCHEMA),
                 (DOMAIN, SERVICE_CAPTURE_IMAGE) \<mapsto> (capture_image_service, CAPTURE_IMAGE_SCHEMA),
                 (DOMAIN, SERVICE_TRIGGER) \<mapsto> (trigger_quick_action_service, TRIGGER_SCHEMA))" and
    names: "distinct [SERVICE_SETTINGS, SERVICE_CAPTURE_IMAGE, SERVICE_TRIGGER]" and
    u2: "async_unload_entry push_entry h1 = (Return True, h2)" and
    sc2: "services h2 (DOMAIN, SERVICE_CAPTURE_IMAGE) = None" and
    d2: "data h2 = (data fresh_hass)(DOMAIN := None)" and
    f2: "(EVENT_HOMEASSISTANT_STOP, logout_closure) \<notin> set (bus_listeners fresh_hass)
                \<longrightarrow> bus_listeners h2 = bus_listeners fresh_hass"
    by blast
  have sc1: "services h1 (DOMAIN, SERVICE_CAPTURE_IMAGE)
               = Some (capture_image_service, CAPTURE_IMAGE_SCHEMA)"
    using sv1 names by simp
  have d2': "data h2 = Map.empty"
    using d2 by (simp add: fresh_hass_def)
  have b2: "bus_listeners h2 = []"
    using f2 by (simp add: fresh_hass_def)
  from s1 u2 sc1 sc2 d2' b2 show ?thesis by simp
qed

subsection \<open>Teardown\<close>

text \<open>
  C1. On unload the event stream is to be stopped only if it was started, that is not in
  polling mode. \<open>async_unload_entry\<close> stops it whatever the flag says: a host set up in polling
  mode never starts the stream (the set-up trace holds the eight platform forwards only), and
  unloading it still calls \<open>events.stop\<close>, then logs out, after unloading the eight platforms.
  The shutdown listener \<open>logout\<close> of the same module, run on the same host, skips the stop.
\<close>

theorem C1_unload_stops_stream_in_polling_mode:
  "fst (async_setup_entry (\<lambda>username password a b c cache. Return quiet_client)
          poll_entry fresh_hass) = Return True
   \<and> trace (snd (async_setup_entry (\<lambda>username password a b c cache. Return quiet_client)
          poll_entry fresh_hass)) = map Forward_entry_setup ABODE_PLATFORMS
   \<and> data (snd (async_setup_entry (\<lambda>username password a b c cache. Return quiet_client)
          poll_entry fresh_hass)) DOMAIN
       = Some ((context_of quiet_client (Some True) [])
           \<lparr>abode := quiet_client
              \<lparr>event_callbacks := map (\<lambda>ev. (ev, partial_event_callback ev)) events\<rparr>\<rparr>)
   \<and> polling (context_of quiet_client (Some True) []) = Some True
   \<and> async_unload_entry poll_entry (hass_with (context_of quiet_client (Some True) [])) =
       (Return True,
        fresh_hass\<lparr>trace :=
          map Forward_entry_unload ABODE_PLATFORMS @ [Abode_events_stop, Abode_logout]\<rparr>)
   \<and> trace (snd (logout (hass_with (context_of quiet_client (Some True) [])))) =
       [Abode_logout, Log_info ''Logged out of Abode'']"
proof -
  have su: "async_setup_entry (\<lambda>username password a b c cache. Return quiet_client)
              poll_entry fresh_hass =
            (Return True,
             fresh_hass\<lparr>data := [DOMAIN \<mapsto>
                 (context_of quiet_client (Some True) [])
                   \<lparr>abode := quiet_client
                      \<lparr>event_callbacks := map (\<lambda>ev. (ev, partial_event_callback ev)) events\<rparr>\<rparr>],
               services :=
                 [(DOMAIN, SERVICE_SETTINGS) \<mapsto> (change_setting_service, CHANGE_SETTING_SCHEMA),
                  (DOMAIN, SERVICE_CAPTURE_IMAGE) \<mapsto> (capture_image_service, CAPTURE_IMAGE_SCHEMA),
                  (DOMAIN, SERVICE_TRIGGER) \<mapsto> (trigger_quick_action_service, TRIGGER_SCHEMA)],
               bus_listeners := [(EVENT_HOMEASSISTANT_STOP, logout_closure)],
               trace := map Forward_entry_setup ABODE_PLATFORMS\<rparr>)"
    by (subst async_setup_entry_success [where client = quiet_client])
       (simp_all add: poll_entry_def fresh_hass_def context_of_def truthy_def quiet_client_def)
  have un: "async_unload_entry poll_entry (hass_with (context_of quiet_client (Some True) [])) =
       (Return True,
        fresh_hass\<lparr>trace :=
          map Forward_entry_unload ABODE_PLATFORMS @ [Abode_events_stop, Abode_logout]\<rparr>)"
    by (subst async_unload_entry_Some
          [where et = EVENT_HOMEASSISTANT_STOP and l = logout_closure
             and sys = "context_of quiet_client (Some True) []"])
       (simp_all add: hass_with_def context_of_def fresh_hass_def fun_eq_iff)
  have lo: "trace (snd (logout (hass_with (context_of quiet_client (Some True) [])))) =
       [Abode_logout, Log_info ''Logged out of Abode'']"
    by (simp add: logout_def hass_with_def context_of_def truthy_def emit_def Let_def)
  have po: "polling (context_of quiet_client (Some True) []) = Some True"
    by (simp add: context_of_def)
  show ?thesis using su un lo po by simp
qed

subsection \<open>The event relay\<close>

text \<open>
  C5. Whatever the vendor payload holds, the relay callback fires one host bus event whose data
  has exactly the ten keys device_id, device_name, device_type, event_code, event_name,
  event_type, event_utc, user_name, date and time, each once, each with the payload's value
  for that key or the empty string.
\<close>

theorem C5_event_data_has_ten_fields:
  "map fst (event_callback_data event_json) =
     [''device_id'', ''device_name'', ''device_type'', ''event_code'', ''event_name'',
      ''event_type'', ''event_utc'', ''user_name'', ''date'', ''time'']
   \<and> distinct (map fst (event_callback_data event_json))
   \<and> length (event_callback_data event_json) = 10
   \<and> map snd (event_callback_data event_json) =
       map (\<lambda>k. dict_get event_json k (JStr ''''))
         [''device_id'', ''device_name'', ''device_type'', ''event_code'', ''event_name'',
          ''event_type'', ''event_utc'', ''user_name'', ''date'', ''time'']
   \<and> run_callback (partial_event_callback ev) event_json h =
       h\<lparr>trace := trace h @ [Bus_fire ev (event_callback_data event_json)]\<rparr>"
  by (simp add: event_callback_data_def event_callback_def emit_def
      ATTR_DEVICE_ID_def ATTR_DEVICE_NAME_def ATTR_DEVICE_TYPE_def ATTR_EVENT_CODE_def
      ATTR_EVENT_NAME_def ATTR_EVENT_TYPE_def ATTR_EVENT_UTC_def ATTR_USER_NAME_def
      ATTR_DATE_def ATTR_TIME_def)

text \<open>
  C6. On a host that holds the shared context, \<open>setup_abode_events\<close> appends to the client's
  event callbacks one relay callback for each of the five categories alarm, alarm end, panel
  fault, panel restore and automation, in that order, and nothing else. A relay callback
  registered for a category fires, for any payload, one host bus event named by that category.
  Hence, on a client that had no event callbacks, an event of one of the five categories is
  republished once under its category and an event of any other category is not republished.
\<close>

theorem C6_relay_registered_for_five_categories:
  assumes "data h DOMAIN = Some sys"
  shows "\<exists>sys'. setup_abode_events h = (Return (), h\<lparr>data := (data h)(DOMAIN \<mapsto> sys')\<rparr>)
           \<and> sys' = sys\<lparr>abode := (abode sys)\<lparr>event_callbacks := event_callbacks (abode sys) @
                [(ALARM_GROUP, partial_event_callback ALARM_GROUP),
                 (ALARM_END_GROUP, partial_event_callback ALARM_END_GROUP),
                 (PANEL_FAULT_GROUP, partial_event_callback PANEL_FAULT_GROUP),
                 (PANEL_RESTORE_GROUP, partial_event_callback PANEL_RESTORE_GROUP),
                 (AUTOMATION_GROUP, partial_event_callback AUTOMATION_GROUP)]\<rparr>\<rparr>
           \<and> (\<forall>g event_json w.
                 run_callback (partial_event_callback g) event_json w =
                   w\<lparr>trace := trace w @ [Bus_fire g (event_callback_data event_json)]\<rparr>)
           \<and> (event_callbacks (abode sys) = [] \<longrightarrow>
                (\<forall>g event_json.
                   deliver_event g event_json (snd (setup_abode_events h)) =
                     (if g \<in> {ALARM_GROUP, ALARM_END_GROUP, PANEL_FAULT_GROUP,
                               PANEL_RESTORE_GROUP, AUTOMATION_GROUP}
                      then (snd (setup_abode_events h))
                             \<lparr>trace := trace h @ [Bus_fire g (event_callback_data event_json)]\<rparr>
                      else snd (setup_abode_events h))))"
proof -
  let ?sys' = "sys\<lparr>abode := (abode sys)\<lparr>event_callbacks := event_callbacks (abode sys) @
                [(ALARM_GROUP, partial_event_callback ALARM_GROUP),
                 (ALARM_END_GROUP, partial_event_callback ALARM_END_GROUP),
                 (PANEL_FAULT_GROUP, partial_event_callback PANEL_FAULT_GROUP),
                 (PANEL_RESTORE_GROUP, partial_event_callback PANEL_RESTORE_GROUP),
                 (AUTOMATION_GROUP, partial_event_callback AUTOMATION_GROUP)]\<rparr>\<rparr>"
  have reg: "setup_abode_events h = (Return (), h\<lparr>data := (data h)(DOMAIN \<mapsto> ?sys')\<rparr>)"
    using setup_abode_events_Some [OF assms] by (simp add: events_def)
  have fire: "\<forall>g event_json w.
                 run_callback (partial_event_callback g) event_json w =
                   w\<lparr>trace := trace w @ [Bus_fire g (event_callback_data event_json)]\<rparr>"
    by (simp add: event_callback_def emit_def)
  have deliver: "deliver_event g event_json (snd (setup_abode_events h)) =
                     (if g \<in> {ALARM_GROUP, ALARM_END_GROUP, PANEL_FAULT_GROUP,
                               PANEL_RESTORE_GROUP, AUTOMATION_GROUP}
                      then (snd (setup_abode_events h))
                             \<lparr>trace := trace h @ [Bus_fire g (event_callback_data event_json)]\<rparr>
                      else snd (setup_abode_events h))"
    if "event_callbacks (abode sys) = []" for g event_json
    using that
    by (cases g) (simp_all add: reg deliver_event_def event_callback_def emit_def)
  from reg fire deliver show ?thesis by blast
qed

theorem C6_relay_registered_for_five_categories_witness:
  "trace (deliver_event PANEL_FAULT_GROUP [''event_code'' \<mapsto> JStr ''5110'']
            (snd (setup_abode_events (hass_with (context_of quiet_client (Some False) [])))))
     = [Bus_fire PANEL_FAULT_GROUP
          (event_callback_data [''event_code'' \<mapsto> JStr ''5110''])]
   \<and> trace (deliver_event (OTHER_GROUP ''abode_disarm'') [''event_code'' \<mapsto> JStr ''5110'']
            (snd (setup_abode_events (hass_with (context_of quiet_client (Some False) [])))))
     = []"
proof -
  let ?sys = "context_of quiet_client (Some False) []"
  have ctx: "data (hass_with ?sys) DOMAIN = Some ?sys"
    by (simp add: hass_with_def)
  have none: "event_callbacks (abode ?sys) = []"
    by (simp add: context_of_def quiet_client_def)
  from C6_relay_registered_for_five_categories [OF ctx] none
  have d: "\<forall>g event_json.
                   deliver_event g event_json (snd (setup_abode_events (hass_with ?sys))) =
                     (if g \<in> {ALARM_GROUP, ALARM_END_GROUP, PANEL_FAULT_GROUP,
                               PANEL_RESTORE_GROUP, AUTOMATION_GROUP}
                      then (snd (setup_abode_events (hass_with ?sys)))
                             \<lparr>trace := trace (hass_with ?sys)
                                @ [Bus_fire g (event_callback_data event_json)]\<rparr>
                      else snd (setup_abode_events (hass_with ?sys)))"
    by blast
  have t0: "trace (hass_with ?sys) = []"
    by (simp add: hass_with_def)
  have t1: "trace (snd (setup_abode_events (hass_with ?sys))) = []"
    using C6_relay_registered_for_five_categories [OF ctx] t0 by auto
  show ?thesis
    by (simp add: d t0 t1)
qed

subsection \<open>The service handlers\<close>

text \<open>
  C7, as claimed: a call of capture_image or trigger_quick_action with an entity-id list
  forwards the action to exactly the registry devices whose entity id is listed. It fails
  where a device's action raises: with the registry holding the front camera, the back camera
  and the hall lock and both cameras listed, the front camera's \<open>capture()\<close> raises, the handler
  ends with that exception, and the back camera, listed and registered, is never asked.
\<close>

theorem C7_capture_stops_at_raising_device:
  "target_devices (Some [''camera.front'', ''camera.back''])
       (devices (context_of quiet_client (Some False) [front_camera, back_camera, hall_lock]))
     = Return [front_camera, back_camera]
   \<and> capture_image
         \<lparr>call_setting = None, call_value = None,
          call_entity_ids = Some [''camera.front'', ''camera.back'']\<rparr>
         (hass_with (context_of quiet_client (Some False) [front_camera, back_camera, hall_lock]))
     = (Raise AbodeException,
        (hass_with (context_of quiet_client (Some False) [front_camera, back_camera, hall_lock]))
          \<lparr>trace := [Device_capture front_camera]\<rparr>)"
  by (simp add: capture_image_def target_devices_def device_capture_def emit_def
      hass_with_def context_of_def front_camera_def back_camera_def hall_lock_def)

text \<open>
  C7, amended: with an entity-id list given, the targets are the registry devices whose entity
  id is listed, in registry order. The handler changes nothing but the trace, and what it
  appends is the action on an initial stretch of the targets: devices outside the registry and
  registry devices that are not listed are never asked. If no target's action raises, the
  action reaches every target and the handler returns; if one raises, the action has reached
  the targets up to and including that one, the targets after it are not reached, and the
  handler ends with the exception.
\<close>

theorem C7_action_reaches_listed_registry_devices:
  assumes "data h DOMAIN = Some sys"
    and "call_entity_ids call = Some ids"
    and "targets = filter (\<lambda>device. entity_id device \<in> set ids) (devices sys)"
  shows "(\<exists>n. snd (capture_image call h) =
               h\<lparr>trace := trace h @ map Device_capture (take n targets)\<rparr>)
       \<and> ((\<forall>d \<in> set targets. capture_raises d = None) \<longrightarrow>
             capture_image call h =
               (Return (), h\<lparr>trace := trace h @ map Device_capture targets\<rparr>))
       \<and> (\<forall>pre dev rest ex.
             targets = pre @ dev # rest \<and> (\<forall>d \<in> set pre. capture_raises d = None)
               \<and> capture_raises dev = Some ex \<longrightarrow>
             capture_image call h =
               (Raise ex, h\<lparr>trace := trace h @ map Device_capture (pre @ [dev])\<rparr>))
       \<and> (\<exists>n. snd (trigger_quick_action call h) =
               h\<lparr>trace := trace h @ map Device_trigger (take n targets)\<rparr>)
       \<and> ((\<forall>d \<in> set targets. trigger_raises d = None) \<longrightarrow>
             trigger_quick_action call h =
               (Return (), h\<lparr>trace := trace h @ map Device_trigger targets\<rparr>))
       \<and> (\<forall>pre dev rest ex.
             targets = pre @ dev # rest \<and> (\<forall>d \<in> set pre. trigger_raises d = None)
               \<and> trigger_raises dev = Some ex \<longrightarrow>
             trigger_quick_action call h =
               (Raise ex, h\<lparr>trace := trace h @ map Device_trigger (pre @ [dev])\<rparr>))"
proof -
  have cap: "capture_image call h = for_devices device_capture targets h"
    using assms by (simp add: capture_image_def target_devices_def)
  have trg: "trigger_quick_action call h = for_devices device_trigger targets h"
    using assms by (simp add: trigger_quick_action_def target_devices_def)
  have c1: "\<exists>n. snd (capture_image call h) =
               h\<lparr>trace := trace h @ map Device_capture (take n targets)\<rparr>"
    unfolding cap
    by (rule for_devices_trace_prefix [where raises = capture_raises])
       (simp add: device_capture_def)
  have c2: "capture_image call h =
               (Return (), h\<lparr>trace := trace h @ map Device_capture targets\<rparr>)"
    if "\<forall>d \<in> set targets. capture_raises d = None"
    unfolding cap using that
    by (intro for_devices_all_return [where raises = capture_raises])
       (simp_all add: device_capture_def)
  have c3: "capture_image call h =
               (Raise ex, h\<lparr>trace := trace h @ map Device_capture (pre @ [dev])\<rparr>)"
    if "targets = pre @ dev # rest" and "\<forall>d \<in> set pre. capture_raises d = None"
      and "capture_raises dev = Some ex" for pre dev rest ex
    unfolding cap that(1) using that(2,3)
    by (intro for_devices_first_raise [where raises = capture_raises])
       (simp_all add: device_capture_def)
  have t1: "\<exists>n. snd (trigger_quick_action call h) =
               h\<lparr>trace := trace h @ map Device_trigger (take n targets)\<rparr>"
    unfolding trg
    by (rule for_devices_trace_prefix [where raises = trigger_raises])
       (simp add: device_trigger_def)
  have t2: "trigger_quick_action call h =
               (Return (), h\<lparr>trace := trace h @ map Device_trigger targets\<rparr>)"
    if "\<forall>d \<in> set targets. trigger_raises d = None"
    unfolding trg using that
    by (intro for_devices_all_return [where raises = trigger_raises])
       (simp_all add: device_trigger_def)
  have t3: "trigger_quick_action call h =
               (Raise ex, h\<lparr>trace := trace h @ map Device_trigger (pre @ [dev])\<rparr>)"
    if "targets = pre @ dev # rest" and "\<forall>d \<in> set pre. trigger_raises d = None"
      and "trigger_raises dev = Some ex" for pre dev rest ex
    unfolding trg that(1) using that(2,3)
    by (intro for_devices_first_raise [where raises = trigger_raises])
       (simp_all add: device_trigger_def)
  from c1 c2 c3 t1 t2 t3 show ?thesis by blast
qed

theorem C7_action_reaches_listed_registry_devices_witness:
  "capture_image
     \<lparr>call_setting = None, call_value = None,
      call_entity_ids = Some [''camera.back'', ''camera.porch'']\<rparr>
     (hass_with (context_of quiet_client (Some False) [back_camera, hall_lock]))
   = (Return (),
      (hass_with (context_of quiet_client (Some False) [back_camera, hall_lock]))
        \<lparr>trace := [Device_capture back_camera]\<rparr>)"
proof -
  let ?sys = "context_of quiet_client (Some False) [back_camera, hall_lock]"
  let ?call = "\<lparr>call_setting = None, call_value = None,
      call_entity_ids = Some [''camera.back'', ''camera.porch'']\<rparr>"
  have ctx: "data (hass_with ?sys) DOMAIN = Some ?sys"
    by (simp add: hass_with_def)
  have ids: "call_entity_ids ?call = Some [''camera.back'', ''camera.porch'']"
    by simp
  have tg: "[back_camera] =
      filter (\<lambda>device. entity_id device \<in> set [''camera.back'', ''camera.porch''])
        (devices ?sys)"
    by (simp add: context_of_def back_camera_def hall_lock_def)
  have quiet: "\<forall>d \<in> set [back_camera]. capture_raises d = None"
    by (simp add: back_camera_def)
  from C7_action_reaches_listed_registry_devices [OF ctx ids tg] quiet
  have "capture_image ?call (hass_with ?sys) =
          (Return (), (hass_with ?sys)
             \<lparr>trace := trace (hass_with ?sys) @ map Device_capture [back_camera]\<rparr>)"
    by blast
  then show ?thesis by (simp add: hass_with_def)
qed

text \<open>
  C2, as claimed: in each of the three handlers a vendor exception is logged and swallowed. It
  fails for trigger_quick_action and for capture_image, which have no \<open>try\<close>: with the front
  camera listed, whose \<open>trigger()\<close> and \<open>capture()\<close> raise the vendor exception, both handlers
  end with that exception and log nothing.
\<close>

theorem C2_trigger_and_capture_propagate:
  "call_service trigger_quick_action_service
     \<lparr>call_setting = None, call_value = None, call_entity_ids = Some [''camera.front'']\<rparr>
     (hass_with (context_of quiet_client (Some False) [front_camera]))
   = (Raise AbodeException,
      (hass_with (context_of quiet_client (Some False) [front_camera]))
        \<lparr>trace := [Device_trigger front_camera]\<rparr>)
   \<and> call_service capture_image_service
     \<lparr>call_setting = None, call_value = None, call_entity_ids = Some [''camera.front'']\<rparr>
     (hass_with (context_of quiet_client (Some False) [front_camera]))
   = (Raise AbodeException,
      (hass_with (context_of quiet_client (Some False) [front_camera]))
        \<lparr>trace := [Device_capture front_camera]\<rparr>)"
  by (simp add: trigger_quick_action_def capture_image_def target_devices_def
      device_trigger_def device_capture_def emit_def
      hass_with_def context_of_def front_camera_def)

text \<open>
  C2, amended: the change_setting handler never ends with a vendor exception. When
  \<open>set_setting\<close> raises one, the handler has made that one vendor call, logs one warning and
  returns; nothing else changes and the call is not repeated. When \<open>set_setting\<close> returns, the
  handler returns after that one call. An exception of another kind from \<open>set_setting\<close> is
  not caught.
\<close>

theorem C2_change_setting_swallows_vendor_exception:
  assumes "data h DOMAIN = Some sys"
  shows "fst (call_service change_setting_service call h) \<noteq> Raise AbodeException
       \<and> (set_setting_raises (abode sys) (call_setting call) (call_value call)
             = Some AbodeException \<longrightarrow>
           call_service change_setting_service call h =
             (Return (),
              h\<lparr>trace := trace h @ [Abode_set_setting (call_setting call) (call_value call),
                                     Log_warning AbodeException]\<rparr>))
       \<and> (set_setting_raises (abode sys) (call_setting call) (call_value call) = None \<longrightarrow>
           call_service change_setting_service call h =
             (Return (),
              h\<lparr>trace := trace h @ [Abode_set_setting (call_setting call) (call_value call)]\<rparr>))
       \<and> (\<forall>ex. set_setting_raises (abode sys) (call_setting call) (call_value call) = Some ex
             \<and> ex \<noteq> AbodeException \<longrightarrow>
           call_service change_setting_service call h =
             (Raise ex,
              h\<lparr>trace := trace h @ [Abode_set_setting (call_setting call) (call_value call)]\<rparr>))"
proof -
  have never: "fst (call_service change_setting_service call h) \<noteq> Raise AbodeException"
    using assms
    by (simp add: change_setting_def set_setting_def Let_def split: option.splits)
  have swallowed: "call_service change_setting_service call h =
             (Return (),
              h\<lparr>trace := trace h @ [Abode_set_setting (call_setting call) (call_value call),
                                     Log_warning AbodeException]\<rparr>)"
    if "set_setting_raises (abode sys) (call_setting call) (call_value call)
          = Some AbodeException"
    using assms that by (simp add: change_setting_def set_setting_def Let_def emit_def)
  have fine: "call_service change_setting_service call h =
             (Return (),
              h\<lparr>trace := trace h @ [Abode_set_setting (call_setting call) (call_value call)]\<rparr>)"
    if "set_setting_raises (abode sys) (call_setting call) (call_value call) = None"
    using assms that by (simp add: change_setting_def set_setting_def Let_def emit_def)
  have other: "call_service change_setting_service call h =
             (Raise ex,
              h\<lparr>trace := trace h @ [Abode_set_setting (call_setting call) (call_value call)]\<rparr>)"
    if "set_setting_raises (abode sys) (call_setting call) (call_value call) = Some ex"
      and "ex \<noteq> AbodeException" for ex
    using assms that by (simp add: change_setting_def set_setting_def Let_def emit_def)
  from never swallowed fine other show ?thesis by blast
qed

theorem C2_change_setting_swallows_vendor_exception_witness:
  "call_service change_setting_service
     \<lparr>call_setting = Some ''beeper_mute'', call_value = Some ''2'', call_entity_ids = None\<rparr>
     (hass_with (context_of failing_client (Some False) []))
   = (Return (),
      (hass_with (context_of failing_client (Some False) []))
        \<lparr>trace := [Abode_set_setting (Some ''beeper_mute'') (Some ''2''),
                   Log_warning AbodeException]\<rparr>)"
proof -
  let ?sys = "context_of failing_client (Some False) []"
  let ?call = "\<lparr>call_setting = Some ''beeper_mute'', call_value = Some ''2'',
                call_entity_ids = None\<rparr>"
  have ctx: "data (hass_with ?sys) DOMAIN = Some ?sys"
    by (simp add: hass_with_def)
  have raises: "set_setting_raises (abode ?sys) (call_setting ?call) (call_value ?call)
                  = Some AbodeException"
    by (simp add: context_of_def failing_client_def)
  from C2_change_setting_swallows_vendor_exception [OF ctx, of ?call] raises
  have "call_service change_setting_service ?call (hass_with ?sys) =
          (Return (),
           (hass_with ?sys)\<lparr>trace := trace (hass_with ?sys)
              @ [Abode_set_setting (call_setting ?call) (call_value ?call),
                 Log_warning AbodeException]\<rparr>)"
    by blast
  then show ?thesis by (simp add: hass_with_def)
qed

subsection \<open>The entity classes\<close>

text \<open>
  C4, as claimed: attaching an entity of either class subscribes a vendor callback. It fails
  for an automation entity built without an event, the constructor's default: attaching it
  registers nothing with the vendor client.
\<close>

theorem C4_automation_without_event_subscribes_nothing:
  "event away_automation = None
   \<and> event_callbacks (abode (AbodeAutomation_async_added_to_hass away_automation
         (context_of quiet_client (Some False) []))) = []
   \<and> device_callbacks (abode (AbodeAutomation_async_added_to_hass away_automation
         (context_of quiet_client (Some False) []))) = []"
  by (simp add: AbodeAutomation_async_added_to_hass_def away_automation_def
      context_of_def quiet_client_def)

text \<open>
  C4, amended: attaching a device entity appends, under the vendor device id, the entity's
  update callback to the client's device callbacks; that callback schedules a host state
  refresh of the entity. Detaching the device entity removes every device callback registered
  under that device id and leaves those of other devices, so after attach and detach no
  callback of the device remains. Attaching an automation entity appends its update callback
  to the client's event callbacks, under the entity's event, if the entity has one (and its
  name is not empty), and does nothing otherwise; that callback refreshes the automation and
  schedules a host state refresh of the entity.
\<close>

theorem C4_entity_callbacks_on_attach_and_detach:
  "device_callbacks (abode (AbodeDevice_async_added_to_hass self sys)) =
     device_callbacks (abode sys) @ [(device_id self, AbodeDevice_update_callback self)]
   \<and> run_callback (AbodeDevice_update_callback self) event_json h =
       h\<lparr>trace := trace h @ [Schedule_update_ha_state (entity_id self)]\<rparr>
   \<and> device_callbacks (abode (AbodeDevice_async_will_remove_from_hass self sys)) =
       filter (\<lambda>entry. fst entry \<noteq> device_id self) (device_callbacks (abode sys))
   \<and> device_id self \<notin> fst ` set (device_callbacks (abode
         (AbodeDevice_async_will_remove_from_hass self
            (AbodeDevice_async_added_to_hass self sys))))
   \<and> event_callbacks (abode (AbodeDevice_async_will_remove_from_hass self
         (AbodeDevice_async_added_to_hass self sys))) = event_callbacks (abode sys)
   \<and> event_callbacks (abode (AbodeAutomation_async_added_to_hass automation sys)) =
       event_callbacks (abode sys) @
         (case event automation of
            None \<Rightarrow> []
          | Some ev \<Rightarrow>
              if ev = OTHER_GROUP [] then []
              else [(ev, AbodeAutomation_update_callback automation)])
   \<and> device_callbacks (abode (AbodeAutomation_async_added_to_hass automation sys)) =
       device_callbacks (abode sys)
   \<and> run_callback (AbodeAutomation_update_callback automation) event_json h =
       h\<lparr>trace := trace h @ [Automation_refresh automation,
                              Schedule_update_ha_state (automation_entity_id automation)]\<rparr>"
  by (auto simp add: AbodeDevice_async_added_to_hass_def
      AbodeDevice_async_will_remove_from_hass_def AbodeAutomation_async_added_to_hass_def
      add_device_callback_def remove_all_device_callbacks_def add_event_callback_def emit_def
      event_truthy_def
      split: option.splits timeline_group.splits)

end
